theory Spec2Isabelle
  imports Complex_Main "HOL-Library.Sublist"
begin

section \<open>Python strings\<close>

text \<open>
  A Python \<open>str\<close> is a sequence of Unicode code points; it is modelled as the list of
  their numbers, so that \<open>len\<close> and slicing count code points as Python does. The
  literals of \<open>base_agents.py\<close> are written with \<open>lit\<close> for their ASCII parts and with
  explicit code points for the accented letters.
\<close>

type_synonym str = "nat list"

definition lit :: "string \<Rightarrow> str" where
  "lit s = map of_char s"

text \<open>\<open>sub in s\<close> on two \<open>str\<close>: \<open>sub\<close> occurs in \<open>s\<close> as a contiguous run.\<close>

fun py_in :: "str \<Rightarrow> str \<Rightarrow> bool" where
  "py_in sub [] = (sub = [])"
| "py_in sub (c # cs) = (prefix sub (c # cs) \<or> py_in sub cs)"

text \<open>\<open>sep.join(xs)\<close>.\<close>

fun join :: "str \<Rightarrow> str list \<Rightarrow> str" where
  "join sep [] = []"
| "join sep [x] = x"
| "join sep (x # y # ys) = x @ sep @ join sep (y # ys)"

text \<open>
  \<open>str.lower\<close> is the interpreter's full Unicode lower-casing, which is not part of the
  repository: every function that calls \<open>.lower()\<close> takes it as the parameter
  \<open>lower\<close>. \<open>ascii_lower\<close> is what \<open>str.lower\<close> computes on ASCII text; it is
  used to run the definitions on concrete messages.
\<close>

definition ascii_lower :: "str \<Rightarrow> str" where
  "ascii_lower s = map (\<lambda>c. if 65 \<le> c \<and> c \<le> 90 then c + 32 else c) s"

section \<open>Exceptions, calls and the object store\<close>

text \<open>
  An exception \<open>e\<close> is its class name and \<open>str(e)\<close>. Only instances of \<open>Exception\<close>
  are modelled: they are what the handlers \<open>except Exception as e\<close> of the file catch.
\<close>

datatype pyexn = PyExn (exn_class: string) (exn_str: str)

text \<open>
  The three \<open>lr.ToolMessage\<close> classes with their fields: \<open>query\<close>, \<open>category\<close>
  and \<open>max_results\<close> of a product search, \<open>user_id\<close> and \<open>limit\<close> of a history lookup.
\<close>

datatype tool =
    ProductSearchTool str "str option" int
  | PromotionSearchTool
  | UserHistoryTool int int

text \<open>A filter value of the dict handed to \<open>search_similar\<close>.\<close>

datatype fval = FStr str | FBool bool

type_synonym filters = "(string \<times> fval) list"

text \<open>
  The calls a run makes, in order: each call of a collaborator, of a tool's \<open>handle\<close>
  and of \<open>track_conversation\<close> is recorded with its arguments.
\<close>

datatype event =
    ToolHandle tool
  | NewQdrantService
  | ImportEmbeddingService
  | NewEmbeddingService
  | EncodeQuery str
  | SearchSimilar "real list" int filters
  | ImportChatController
  | ImportMensajeController
  | NewChatController
  | GetChatsByUsuario int
  | NewMensajeController
  | GetMensajesByChat int int int
  | TrackConversation str str
  | LlmResponseAsync str

text \<open>
  Objects live in a store: \<open>conversation_metrics\<close> is a dict whose values are an int
  and two references to list objects, and \<open>dict.copy\<close> copies the references, not the
  lists. \<open>next_free\<close> is the first address not yet allocated.
\<close>

type_synonym addr = nat

datatype pyval = IntV int | Ref addr

datatype pyobj = ListObj "str list" | DictObj "string \<Rightarrow> pyval option"

record world =
  cells :: "addr \<Rightarrow> pyobj"
  next_free :: addr
  trace :: "event list"

text \<open>A computation runs in a world and returns a value or raises, with the new world.\<close>

type_synonym 'a py = "world \<Rightarrow> (pyexn + 'a) \<times> world"

definition py_return :: "'a \<Rightarrow> 'a py" where
  "py_return x w = (Inr x, w)"

definition py_raise :: "pyexn \<Rightarrow> 'a py" where
  "py_raise e w = (Inl e, w)"

definition py_bind :: "'a py \<Rightarrow> ('a \<Rightarrow> 'b py) \<Rightarrow> 'b py" where
  "py_bind m f w = (case m w of (Inl e, w') \<Rightarrow> (Inl e, w') | (Inr x, w') \<Rightarrow> f x w')"

text \<open>\<open>try: m except Exception as e: h e\<close>.\<close>

definition py_try :: "'a py \<Rightarrow> (pyexn \<Rightarrow> 'a py) \<Rightarrow> 'a py" where
  "py_try m h w = (case m w of (Inl e, w') \<Rightarrow> h e w' | (Inr x, w') \<Rightarrow> (Inr x, w'))"

text \<open>A call of a collaborator: the call is recorded and its outcome is the result.\<close>

definition call :: "event \<Rightarrow> pyexn + 'a \<Rightarrow> 'a py" where
  "call ev outcome w = (outcome, w\<lparr>trace := trace w @ [ev]\<rparr>)"

text \<open>\<open>allocate\<close> stores a new object at a fresh address.\<close>

definition allocate :: "pyobj \<Rightarrow> addr py" where
  "allocate obj w =
     (Inr (next_free w), w\<lparr>cells := (cells w)(next_free w := obj), next_free := Suc (next_free w)\<rparr>)"

section \<open>SalesAgent\<close>

definition suggestion_uniforme :: str where
  "suggestion_uniforme =
     [0xBF] @ lit ''Has considerado tambi'' @ [0xE9] @ lit ''n un cintur'' @ [0xF3]
       @ lit ''n o protecciones?''"

definition suggestion_cinturon :: str where
  "suggestion_cinturon =
     [0xBF] @ lit ''Te interesar'' @ [0xED] @ lit ''a ver nuestros uniformes a juego?''"

definition suggestion_proteccion :: str where
  "suggestion_proteccion =
     [0xBF] @ lit ''Necesitas tambi'' @ [0xE9] @ lit ''n guantes o espinilleras?''"

definition sales_prefix :: str where
  "sales_prefix = lit ''Sugerencias adicionales: ''"

definition sales_filler :: str where
  "sales_filler = lit ''Continuando con la conversaci'' @ [0xF3] @ lit ''n...''"

definition sales_error :: str where
  "sales_error = lit ''Error en an'' @ [0xE1] @ lit ''lisis de ventas''"

definition SalesAgent_handle_message_fallback :: "(str \<Rightarrow> str) \<Rightarrow> str \<Rightarrow> str py" where
  "SalesAgent_handle_message_fallback lower msg =
     py_try
       (let recommendations =
              (if py_in (lit ''uniforme'') (lower msg) then [] @ [suggestion_uniforme]
               else if py_in (lit ''cinturon'') (lower msg) then [] @ [suggestion_cinturon]
               else if py_in (lit ''proteccion'') (lower msg) then [] @ [suggestion_proteccion]
               else [])
        in if recommendations \<noteq> []
           then py_return (sales_prefix @ join (lit '' '') recommendations)
           else py_return sales_filler)
       (\<lambda>e. py_return sales_error)"

section \<open>Collaborators\<close>

text \<open>
  The vector store, the embedding service, the controllers of the relational layer and
  the LLM are not part of the file: each is a field of \<open>env\<close> giving the outcome of the
  call, a result or a raised exception. \<open>'v\<close> is the type of the values they hand back
  (payload entries, scores, roles). \<open>repr\<close> and \<open>repr_str\<close> are the interpreter's
  \<open>repr\<close> on those values and on \<open>str\<close>.
\<close>

text \<open>One result of \<open>search_similar\<close>: a dict that may hold a payload dict and a score.\<close>

record 'v hit =
  hit_payload :: "(string \<Rightarrow> 'v option) option"
  hit_score :: "'v option"

record chat =
  chat_id :: int

text \<open>\<open>fechaCreacion\<close> is \<open>None\<close> or a datetime, kept as its \<open>isoformat()\<close>.\<close>

record 'v mensaje =
  rol :: 'v
  contenido :: str
  fechaCreacion :: "str option"

record 'v env =
  repr :: "'v \<Rightarrow> str"
  repr_str :: "str \<Rightarrow> str"
  new_QdrantService :: "pyexn + unit"
  import_EmbeddingService :: "pyexn + unit"
  new_EmbeddingService :: "pyexn + unit"
  encode_query :: "str \<Rightarrow> pyexn + real list"
  search_similar :: "real list \<Rightarrow> int \<Rightarrow> filters \<Rightarrow> pyexn + 'v hit list"
  import_ChatController :: "pyexn + unit"
  import_MensajeController :: "pyexn + unit"
  new_ChatController :: "pyexn + unit"
  get_chats_by_usuario :: "int \<Rightarrow> pyexn + chat list"
  new_MensajeController :: "pyexn + unit"
  get_mensajes_by_chat :: "int \<Rightarrow> int \<Rightarrow> int \<Rightarrow> pyexn + 'v mensaje list"
  llm_response_async :: "str \<Rightarrow> pyexn + str"

section \<open>Tools\<close>

text \<open>
  \<open>str\<close> of a list of dicts: each tool builds dicts with fixed keys and prints the
  list. The model keeps, for every key, the \<open>repr\<close> of its value.
\<close>

definition py_dict_repr :: "(string \<times> str) list \<Rightarrow> str" where
  "py_dict_repr items =
     lit ''{'' @ join (lit '', '') (map (\<lambda>(k, r). [39] @ lit k @ [39] @ lit '': '' @ r) items)
       @ lit ''}''"

definition py_list_repr :: "str list \<Rightarrow> str" where
  "py_list_repr xs = lit ''['' @ join (lit '', '') xs @ lit '']''"

text \<open>\<open>repr(d.get(k, default))\<close>, given the \<open>repr\<close> of the default.\<close>

definition get_repr :: "('v \<Rightarrow> str) \<Rightarrow> (string \<Rightarrow> 'v option) \<Rightarrow> string \<Rightarrow> str \<Rightarrow> str" where
  "get_repr r d k default_repr = (case d k of Some v \<Rightarrow> r v | None \<Rightarrow> default_repr)"

definition repr_NA :: str where
  "repr_NA = [39] @ lit ''N/A'' @ [39]"

definition no_products :: str where
  "no_products = lit ''No se encontraron productos que coincidan con tu b'' @ [0xFA]
     @ lit ''squeda.''"

definition product_error_prefix :: str where
  "product_error_prefix = lit ''Error ejecutando b'' @ [0xFA] @ lit ''squeda: ''"

definition no_promotions :: str where
  "no_promotions = lit ''No hay promociones activas en este momento.''"

definition promotion_error_prefix :: str where
  "promotion_error_prefix = lit ''Error obteniendo promociones: ''"

definition no_history :: str where
  "no_history = lit ''Usuario sin historial previo''"

definition history_error_prefix :: str where
  "history_error_prefix = lit ''Error obteniendo historial: ''"

definition format_product :: "'v env \<Rightarrow> 'v hit \<Rightarrow> str" where
  "format_product env result =
     (let payload = (case hit_payload result of Some p \<Rightarrow> p | None \<Rightarrow> (\<lambda>k. None));
          score = (case hit_score result of Some s \<Rightarrow> repr env s | None \<Rightarrow> lit ''0'')
      in py_dict_repr
           [(''nombre'', get_repr (repr env) payload ''nombre'' repr_NA),
            (''descripcion'', get_repr (repr env) payload ''descripcion'' repr_NA),
            (''precio'', get_repr (repr env) payload ''precio'' repr_NA),
            (''categoria'', get_repr (repr env) payload ''categoria'' repr_NA),
            (''disponible'', get_repr (repr env) payload ''disponible'' (lit ''True'')),
            (''stock'', get_repr (repr env) payload ''stock'' (lit ''0'')),
            (''relevance_score'', score)])"

definition format_promotion :: "'v env \<Rightarrow> 'v hit \<Rightarrow> str" where
  "format_promotion env result =
     (let payload = (case hit_payload result of Some p \<Rightarrow> p | None \<Rightarrow> (\<lambda>k. None))
      in py_dict_repr
           [(''descripcion'', get_repr (repr env) payload ''descripcion'' repr_NA),
            (''descuento'', get_repr (repr env) payload ''descuento'' (lit ''0'')),
            (''productos'', get_repr (repr env) payload ''productos_nombres'' repr_NA),
            (''fecha_fin'', get_repr (repr env) payload ''fecha_fin'' repr_NA)])"

definition format_history :: "'v env \<Rightarrow> 'v mensaje \<Rightarrow> str" where
  "format_history env msg =
     py_dict_repr
       [(''rol'', repr env (rol msg)),
        (''contenido'', repr_str env (take 200 (contenido msg))),
        (''fecha'', (case fechaCreacion msg of Some stamp \<Rightarrow> repr_str env stamp | None \<Rightarrow> lit ''None''))]"

definition promotion_filters :: filters where
  "promotion_filters = [(''type'', FStr (lit ''promocion'')), (''activa'', FBool True)]"

text \<open>\<open>filters = {}\<close>, with the category added when it is set and not empty.\<close>

definition category_filters :: "str option \<Rightarrow> filters" where
  "category_filters category =
     (case category of
        Some c \<Rightarrow> if c \<noteq> [] then [] @ [(''categoria'', FStr c)] else []
      | None \<Rightarrow> [])"

text \<open>
  The \<open>handle\<close> method of each tool. The \<open>logger\<close> calls of the file change nothing
  that is returned or stored and are left out.
\<close>

fun handle :: "'v env \<Rightarrow> tool \<Rightarrow> str py" where
  "handle env (ProductSearchTool query category max_results) =
     py_bind (call (ToolHandle (ProductSearchTool query category max_results)) (Inr ())) (\<lambda>_.
     py_try
       (py_bind (call NewQdrantService (new_QdrantService env)) (\<lambda>_.
        py_bind (call ImportEmbeddingService (import_EmbeddingService env)) (\<lambda>_.
        py_bind (call NewEmbeddingService (new_EmbeddingService env)) (\<lambda>_.
        py_bind (call (EncodeQuery query) (encode_query env query)) (\<lambda>query_embedding.
        let filters = category_filters category
        in py_bind (call (SearchSimilar query_embedding max_results filters)
                      (search_similar env query_embedding max_results filters)) (\<lambda>results.
           if results = [] then py_return no_products
           else py_return (py_list_repr (map (format_product env) results))))))))
       (\<lambda>e. py_return (product_error_prefix @ exn_str e)))"
| "handle env PromotionSearchTool =
     py_bind (call (ToolHandle PromotionSearchTool) (Inr ())) (\<lambda>_.
     py_try
       (py_bind (call NewQdrantService (new_QdrantService env)) (\<lambda>_.
        let filters = promotion_filters
        in py_bind (call (SearchSimilar (replicate 384 0) 10 filters)
                      (search_similar env (replicate 384 0) 10 filters)) (\<lambda>results.
           if results = [] then py_return no_promotions
           else py_return (py_list_repr (map (format_promotion env) results)))))
       (\<lambda>e. py_return (promotion_error_prefix @ exn_str e)))"
| "handle env (UserHistoryTool user_id limit) =
     py_bind (call (ToolHandle (UserHistoryTool user_id limit)) (Inr ())) (\<lambda>_.
     py_try
       (py_bind (call ImportChatController (import_ChatController env)) (\<lambda>_.
        py_bind (call ImportMensajeController (import_MensajeController env)) (\<lambda>_.
        py_bind (call NewChatController (new_ChatController env)) (\<lambda>_.
        py_bind (call (GetChatsByUsuario user_id) (get_chats_by_usuario env user_id)) (\<lambda>user_chats.
        case user_chats of
          [] \<Rightarrow> py_return no_history
        | latest_chat # _ \<Rightarrow>
            py_bind (call NewMensajeController (new_MensajeController env)) (\<lambda>_.
            py_bind (call (GetMensajesByChat (chat_id latest_chat) limit 0)
                       (get_mensajes_by_chat env (chat_id latest_chat) limit 0)) (\<lambda>recent_messages.
            py_return (py_list_repr (map (format_history env) recent_messages)))))))))
       (\<lambda>e. py_return (history_error_prefix @ exn_str e)))"

section \<open>KnowledgeAgent\<close>

definition knowledge_error :: str where
  "knowledge_error = lit ''Lo siento, hubo un error accediendo a la base de conocimiento.''"

definition KnowledgeAgent_handle_message_fallback :: "(str \<Rightarrow> str) \<Rightarrow> 'v env \<Rightarrow> str \<Rightarrow> str py" where
  "KnowledgeAgent_handle_message_fallback lower env msg =
     py_try
       (if py_in (lit ''promocion'') (lower msg) \<or> py_in (lit ''descuento'') (lower msg)
           \<or> py_in (lit ''oferta'') (lower msg)
        then handle env PromotionSearchTool
        else handle env (ProductSearchTool msg None 5))
       (\<lambda>e. py_return knowledge_error)"

section \<open>AnalyticsAgent\<close>

text \<open>
  The operations of the interpreter that \<open>track_conversation\<close> and \<open>get_metrics\<close>
  use on the objects of the store, with the exception each raises on an object of the
  wrong kind.
\<close>

text \<open>\<open>obj[key]\<close> for a \<open>str\<close> key.\<close>

definition getitem :: "addr \<Rightarrow> string \<Rightarrow> pyval py" where
  "getitem a k w =
     (case cells w a of
        DictObj d \<Rightarrow>
          (case d k of
             Some v \<Rightarrow> (Inr v, w)
           | None \<Rightarrow> py_raise (PyExn ''KeyError'' ([39] @ lit k @ [39])) w)
      | ListObj xs \<Rightarrow>
          py_raise (PyExn ''TypeError'' (lit ''list indices must be integers or slices, not str'')) w)"

text \<open>\<open>obj[key] = v\<close>.\<close>

definition setitem :: "addr \<Rightarrow> string \<Rightarrow> pyval \<Rightarrow> unit py" where
  "setitem a k v w =
     (case cells w a of
        DictObj d \<Rightarrow> (Inr (), w\<lparr>cells := (cells w)(a := DictObj (d(k \<mapsto> v)))\<rparr>)
      | ListObj xs \<Rightarrow>
          py_raise (PyExn ''TypeError'' (lit ''list indices must be integers or slices, not str'')) w)"

text \<open>\<open>del obj[key]\<close>.\<close>

definition delitem :: "addr \<Rightarrow> string \<Rightarrow> unit py" where
  "delitem a k w =
     (case cells w a of
        DictObj d \<Rightarrow>
          (case d k of
             Some v \<Rightarrow> (Inr (), w\<lparr>cells := (cells w)(a := DictObj (d(k := None)))\<rparr>)
           | None \<Rightarrow> py_raise (PyExn ''KeyError'' ([39] @ lit k @ [39])) w)
      | ListObj xs \<Rightarrow>
          py_raise (PyExn ''TypeError'' (lit ''list indices must be integers or slices, not str'')) w)"

text \<open>The value of \<open>v + n\<close> computed by \<open>v += n\<close> for an int \<open>n\<close>.\<close>

definition iadd :: "pyval \<Rightarrow> int \<Rightarrow> pyval py" where
  "iadd v n w =
     (case v of
        IntV i \<Rightarrow> (Inr (IntV (i + n)), w)
      | Ref a \<Rightarrow>
          (case cells w a of
             ListObj xs \<Rightarrow>
               py_raise (PyExn ''TypeError''
                  ([39] @ lit ''int'' @ [39] @ lit '' object is not iterable'')) w
           | DictObj d \<Rightarrow>
               py_raise (PyExn ''TypeError''
                  (lit ''unsupported operand type(s) for +=: '' @ [39] @ lit ''dict'' @ [39]
                     @ lit '' and '' @ [39] @ lit ''int'' @ [39])) w))"

text \<open>\<open>v.append(x)\<close>.\<close>

definition append_py :: "pyval \<Rightarrow> str \<Rightarrow> unit py" where
  "append_py v x w =
     (case v of
        Ref a \<Rightarrow>
          (case cells w a of
             ListObj xs \<Rightarrow> (Inr (), w\<lparr>cells := (cells w)(a := ListObj (xs @ [x]))\<rparr>)
           | DictObj d \<Rightarrow>
               py_raise (PyExn ''AttributeError''
                  ([39] @ lit ''dict'' @ [39] @ lit '' object has no attribute '' @ [39]
                     @ lit ''append'' @ [39])) w)
      | IntV i \<Rightarrow>
          py_raise (PyExn ''AttributeError''
             ([39] @ lit ''int'' @ [39] @ lit '' object has no attribute '' @ [39]
                @ lit ''append'' @ [39])) w)"

text \<open>\<open>obj.copy()\<close> of a dict or a list: a new object with the same entries.\<close>

definition copy :: "addr \<Rightarrow> addr py" where
  "copy a w = allocate (cells w a) w"

record AnalyticsAgent =
  conversation_metrics :: addr

definition AnalyticsAgent_init :: "AnalyticsAgent py" where
  "AnalyticsAgent_init =
     py_bind (allocate (ListObj [])) (\<lambda>l1.
     py_bind (allocate (ListObj [])) (\<lambda>l2.
     py_bind (allocate (DictObj [''total_messages'' \<mapsto> IntV 0,
                                 ''user_satisfaction'' \<mapsto> Ref l1,
                                 ''conversion_indicators'' \<mapsto> Ref l2])) (\<lambda>d.
     py_return \<lparr>conversation_metrics = d\<rparr>)))"

definition positive_indicators :: "str list" where
  "positive_indicators = [lit ''gracias'', lit ''perfecto'', lit ''excelente'', lit ''me gusta'']"

definition conversion_indicators :: "str list" where
  "conversion_indicators = [lit ''comprar'', lit ''precio'', lit ''disponible'', lit ''stock'']"

definition track_conversation :: "(str \<Rightarrow> str) \<Rightarrow> AnalyticsAgent \<Rightarrow> str \<Rightarrow> str \<Rightarrow> unit py" where
  "track_conversation lower self user_msg bot_response =
     py_bind (call (TrackConversation user_msg bot_response) (Inr ())) (\<lambda>_.
     py_bind (getitem (conversation_metrics self) ''total_messages'') (\<lambda>v.
     py_bind (iadd v 1) (\<lambda>v'.
     py_bind (setitem (conversation_metrics self) ''total_messages'' v') (\<lambda>_.
     py_bind (if list_ex (\<lambda>indicator. py_in indicator (lower user_msg)) positive_indicators
              then py_bind (getitem (conversation_metrics self) ''user_satisfaction'') (\<lambda>l.
                   append_py l (lit ''positive''))
              else py_return ()) (\<lambda>_.
     if list_ex (\<lambda>indicator. py_in indicator (lower user_msg)) conversion_indicators
     then py_bind (getitem (conversation_metrics self) ''conversion_indicators'') (\<lambda>l.
          append_py l (take 50 user_msg))
     else py_return ())))))"

definition get_metrics :: "AnalyticsAgent \<Rightarrow> addr py" where
  "get_metrics self = copy (conversation_metrics self)"

section \<open>MainBaekhoAgent\<close>

text \<open>
  The knowledge and sales agents hold no state of their own; the main agent owns the
  analytics agent.
\<close>

record MainBaekhoAgent =
  analytics_agent :: AnalyticsAgent

definition MainBaekhoAgent_init :: "MainBaekhoAgent py" where
  "MainBaekhoAgent_init =
     py_bind AnalyticsAgent_init (\<lambda>a. py_return \<lparr>analytics_agent = a\<rparr>)"

definition indent :: str where
  "indent = replicate 12 32"

text \<open>The f-string \<open>context_prompt\<close>, line by line.\<close>

definition context_prompt :: "str \<Rightarrow> str \<Rightarrow> str \<Rightarrow> str" where
  "context_prompt message knowledge_response sales_response =
     [10] @ indent @ lit ''Consulta del usuario: '' @ message @ [10]
     @ indent @ [10]
     @ indent @ lit ''Informaci'' @ [0xF3] @ lit ''n de productos encontrada:'' @ [10]
     @ indent @ knowledge_response @ [10]
     @ indent @ [10]
     @ indent @ lit ''Recomendaciones de ventas:'' @ [10]
     @ indent @ sales_response @ [10]
     @ indent @ [10]
     @ indent @ lit ''Bas'' @ [0xE1] @ lit ''ndote en esta informaci'' @ [0xF3]
       @ lit ''n, proporciona una respuesta completa y '' @ [0xFA] @ lit ''til al usuario.'' @ [10]
     @ indent @ lit ''Mant'' @ [0xE9] @ lit ''n el tono amigable y comercial de BaekhoBot ''
       @ [0x1F94B] @ lit ''.'' @ [10]
     @ indent"

definition apology :: str where
  "apology = lit ''Lo siento, hubo un error procesando tu consulta. Por favor intenta de nuevo.''"

text \<open>
  The body of the \<open>try\<close> of \<open>handle_user_message\<close>. The \<open>await\<close> of the LLM is the call
  of the collaborator; \<open>user_id\<close> and \<open>conversation_context\<close> are not used by the method.
\<close>

definition handle_user_message_body :: "(str \<Rightarrow> str) \<Rightarrow> 'v env \<Rightarrow> MainBaekhoAgent \<Rightarrow> str \<Rightarrow> str py" where
  "handle_user_message_body lower env self message =
     py_bind (track_conversation lower (analytics_agent self) message []) (\<lambda>_.
     py_bind (KnowledgeAgent_handle_message_fallback lower env message) (\<lambda>knowledge_response.
     py_bind (SalesAgent_handle_message_fallback lower message) (\<lambda>sales_response.
     py_bind (call (LlmResponseAsync (context_prompt message knowledge_response sales_response))
                (llm_response_async env (context_prompt message knowledge_response sales_response)))
       (\<lambda>final_response.
     py_bind (track_conversation lower (analytics_agent self) message final_response) (\<lambda>_.
     py_return final_response)))))"

definition handle_user_message :: "(str \<Rightarrow> str) \<Rightarrow> 'v env \<Rightarrow> MainBaekhoAgent \<Rightarrow> str \<Rightarrow> str py" where
  "handle_user_message lower env self message =
     py_try (handle_user_message_body lower env self message) (\<lambda>e. py_return apology)"

definition get_conversation_stats :: "MainBaekhoAgent \<Rightarrow> addr py" where
  "get_conversation_stats self = get_metrics (analytics_agent self)"

section \<open>Reading a run\<close>

text \<open>The tools whose \<open>handle\<close> ran, in order.\<close>

fun tool_calls :: "event list \<Rightarrow> tool list" where
  "tool_calls [] = []"
| "tool_calls (ToolHandle t # es) = t # tool_calls es"
| "tool_calls (_ # es) = tool_calls es"

text \<open>The arguments of the calls of \<open>search_similar\<close>, in order.\<close>

fun search_calls :: "event list \<Rightarrow> (real list \<times> int \<times> filters) list" where
  "search_calls [] = []"
| "search_calls (SearchSimilar v n f # es) = (v, n, f) # search_calls es"
| "search_calls (_ # es) = search_calls es"

text \<open>
  The calls the main agent makes itself or through the knowledge agent: tracking, a
  tool's \<open>handle\<close> and the LLM, without the calls a tool makes inside \<open>handle\<close>.
\<close>

fun agent_call :: "event \<Rightarrow> bool" where
  "agent_call (ToolHandle t) = True"
| "agent_call (TrackConversation u b) = True"
| "agent_call (LlmResponseAsync p) = True"
| "agent_call _ = False"

text \<open>
  The counters of an agent as the store holds them: the int under \<open>total_messages\<close> and
  the contents of the two lists its dict refers to.
\<close>

record metrics =
  m_total_messages :: int
  m_user_satisfaction :: "str list"
  m_conversion_indicators :: "str list"

text \<open>The int, or the reference, a dict object holds under a key, and the list at an address.\<close>

definition entry_int :: "pyobj \<Rightarrow> string \<Rightarrow> int option" where
  "entry_int obj k =
     (case obj of
        DictObj d \<Rightarrow> (case d k of Some (IntV n) \<Rightarrow> Some n | Some (Ref a) \<Rightarrow> None | None \<Rightarrow> None)
      | ListObj xs \<Rightarrow> None)"

definition entry_ref :: "pyobj \<Rightarrow> string \<Rightarrow> addr option" where
  "entry_ref obj k =
     (case obj of
        DictObj d \<Rightarrow> (case d k of Some (Ref a) \<Rightarrow> Some a | Some (IntV n) \<Rightarrow> None | None \<Rightarrow> None)
      | ListObj xs \<Rightarrow> None)"

definition list_at :: "world \<Rightarrow> addr \<Rightarrow> str list option" where
  "list_at w a = (case cells w a of ListObj xs \<Rightarrow> Some xs | DictObj d \<Rightarrow> None)"

definition metrics_of :: "world \<Rightarrow> AnalyticsAgent \<Rightarrow> metrics option" where
  "metrics_of w self =
     (case entry_int (cells w (conversation_metrics self)) ''total_messages'' of
        None \<Rightarrow> None
      | Some n \<Rightarrow>
     (case entry_ref (cells w (conversation_metrics self)) ''user_satisfaction'' of
        None \<Rightarrow> None
      | Some l1 \<Rightarrow>
     (case entry_ref (cells w (conversation_metrics self)) ''conversion_indicators'' of
        None \<Rightarrow> None
      | Some l2 \<Rightarrow>
     (case list_at w l1 of
        None \<Rightarrow> None
      | Some xs \<Rightarrow>
     (case list_at w l2 of
        None \<Rightarrow> None
      | Some ys \<Rightarrow>
          Some \<lparr>m_total_messages = n, m_user_satisfaction = xs,
                m_conversion_indicators = ys\<rparr>)))))"

text \<open>
  The shape \<open>__init__\<close> gives the counters: an allocated dict with an int and two
  distinct allocated lists.
\<close>

definition metrics_ok :: "world \<Rightarrow> AnalyticsAgent \<Rightarrow> bool" where
  "metrics_ok w self =
     (metrics_of w self \<noteq> None
      \<and> conversation_metrics self < next_free w
      \<and> (case entry_ref (cells w (conversation_metrics self)) ''user_satisfaction'' of
           None \<Rightarrow> False
         | Some l1 \<Rightarrow>
        (case entry_ref (cells w (conversation_metrics self)) ''conversion_indicators'' of
           None \<Rightarrow> False
         | Some l2 \<Rightarrow> l1 \<noteq> l2 \<and> l1 < next_free w \<and> l2 < next_free w)))"

text \<open>A sequence of \<open>track_conversation\<close> calls, given as the pairs of arguments.\<close>

fun track_all :: "(str \<Rightarrow> str) \<Rightarrow> AnalyticsAgent \<Rightarrow> (str \<times> str) list \<Rightarrow> unit py" where
  "track_all lower self [] = py_return ()"
| "track_all lower self ((user_msg, bot_response) # rest) =
     py_bind (track_conversation lower self user_msg bot_response) (\<lambda>_.
     track_all lower self rest)"

text \<open>A world with nothing allocated and no call made.\<close>

definition empty_world :: world where
  "empty_world = \<lparr>cells = (\<lambda>a. ListObj []), next_free = 0, trace = []\<rparr>"

section \<open>The behaviour the specification states\<close>

text \<open>The routing rule of the knowledge agent, in the words of the specification.\<close>

definition spec_route :: "(str \<Rightarrow> str) \<Rightarrow> str \<Rightarrow> tool" where
  "spec_route lower msg =
     (if py_in (lit ''promocion'') (lower msg) \<or> py_in (lit ''descuento'') (lower msg)
         \<or> py_in (lit ''oferta'') (lower msg)
      then PromotionSearchTool
      else ProductSearchTool msg None 5)"

text \<open>The counters after one more tracked message, in the words of the specification.\<close>

definition spec_tracked :: "(str \<Rightarrow> str) \<Rightarrow> str \<Rightarrow> metrics \<Rightarrow> metrics" where
  "spec_tracked lower user_msg m =
     \<lparr>m_total_messages = m_total_messages m + 1,
      m_user_satisfaction =
        m_user_satisfaction m
          @ (if py_in (lit ''gracias'') (lower user_msg) \<or> py_in (lit ''perfecto'') (lower user_msg)
                \<or> py_in (lit ''excelente'') (lower user_msg) \<or> py_in (lit ''me gusta'') (lower user_msg)
             then [lit ''positive''] else []),
      m_conversion_indicators =
        m_conversion_indicators m
          @ (if py_in (lit ''comprar'') (lower user_msg) \<or> py_in (lit ''precio'') (lower user_msg)
                \<or> py_in (lit ''disponible'') (lower user_msg) \<or> py_in (lit ''stock'') (lower user_msg)
             then [take 50 user_msg] else [])\<rparr>"

text \<open>The invariant of the counters.\<close>

definition counters_inv :: "metrics \<Rightarrow> bool" where
  "counters_inv m =
     (int (length (m_user_satisfaction m)) \<le> m_total_messages m
      \<and> int (length (m_conversion_indicators m)) \<le> m_total_messages m
      \<and> list_all (\<lambda>s. length s \<le> 50) (m_conversion_indicators m))"

text \<open>
  What a caller can do with the mapping \<open>get_metrics\<close> returns:
  \<open>m = agent.get_metrics(); m[k].append(x)\<close>, \<open>m[k] = v\<close> and \<open>del m[k]\<close>.
\<close>

definition caller_appends :: "AnalyticsAgent \<Rightarrow> string \<Rightarrow> str \<Rightarrow> unit py" where
  "caller_appends self k x =
     py_bind (get_metrics self) (\<lambda>m. py_bind (getitem m k) (\<lambda>l. append_py l x))"

definition caller_rebinds :: "AnalyticsAgent \<Rightarrow> string \<Rightarrow> pyval \<Rightarrow> unit py" where
  "caller_rebinds self k v = py_bind (get_metrics self) (\<lambda>m. setitem m k v)"

definition caller_deletes :: "AnalyticsAgent \<Rightarrow> string \<Rightarrow> unit py" where
  "caller_deletes self k = py_bind (get_metrics self) (\<lambda>m. delitem m k)"

text \<open>
  Collaborators that answer every call: empty search results, no chats, and an LLM that
  replies \<open>Hola\<close>. \<open>failing\<close> is an exception a collaborator may raise.
\<close>

definition stub_env :: "str env" where
  "stub_env =
     \<lparr>repr = (\<lambda>s. [39] @ s @ [39]),
      repr_str = (\<lambda>s. [39] @ s @ [39]),
      new_QdrantService = Inr (),
      import_EmbeddingService = Inr (),
      new_EmbeddingService = Inr (),
      encode_query = (\<lambda>q. Inr (replicate 384 1)),
      search_similar = (\<lambda>v n f. Inr []),
      import_ChatController = Inr (),
      import_MensajeController = Inr (),
      new_ChatController = Inr (),
      get_chats_by_usuario = (\<lambda>u. Inr []),
      new_MensajeController = Inr (),
      get_mensajes_by_chat = (\<lambda>c n k. Inr []),
      llm_response_async = (\<lambda>p. Inr (lit ''Hola''))\<rparr>"

definition failing :: pyexn where
  "failing = PyExn ''ConnectionError'' (lit ''timeout'')"

section \<open>Auxiliary facts\<close>

subsection \<open>Strings\<close>

text \<open>\<open>py_in\<close> is containment as a contiguous run.\<close>

lemma py_in_iff: "py_in sub s \<longleftrightarrow> (\<exists>ps ss. s = ps @ sub @ ss)"
proof (induction s)
  case Nil
  then show ?case by auto
next
  case (Cons c cs)
  show ?case
  proof
    assume "py_in sub (c # cs)"
    then consider "prefix sub (c # cs)" | "py_in sub cs" by auto
    then show "\<exists>ps ss. c # cs = ps @ sub @ ss"
    proof cases
      case 1
      then obtain ss where "c # cs = sub @ ss" by (auto simp: prefix_def)
      then have "c # cs = [] @ sub @ ss" by simp
      then show ?thesis by blast
    next
      case 2
      with Cons obtain ps ss where "cs = ps @ sub @ ss" by blast
      then have "c # cs = (c # ps) @ sub @ ss" by simp
      then show ?thesis by blast
    qed
  next
    assume "\<exists>ps ss. c # cs = ps @ sub @ ss"
    then obtain ps ss where e: "c # cs = ps @ sub @ ss" by blast
    show "py_in sub (c # cs)"
    proof (cases ps)
      case Nil
      with e have "prefix sub (c # cs)" by (simp add: prefix_def)
      then show ?thesis by simp
    next
      case (Cons p ps')
      with e have "cs = ps' @ sub @ ss" by simp
      with Cons.IH have "py_in sub cs" by blast
      then show ?thesis by simp
    qed
  qed
qed

subsection \<open>Runs of the tools\<close>

lemmas py_defs = py_return_def py_raise_def py_bind_def py_try_def call_def

lemma tool_calls_append: "tool_calls (xs @ ys) = tool_calls xs @ tool_calls ys"
  by (induction xs rule: tool_calls.induct) simp_all

lemma search_calls_append: "search_calls (xs @ ys) = search_calls xs @ search_calls ys"
  by (induction xs rule: search_calls.induct) simp_all

lemma handle_run:
  "handle env t w =
     (fst (handle env t empty_world),
      w\<lparr>trace := trace w @ trace (snd (handle env t empty_world))\<rparr>)"
  by (cases t) (simp_all add: py_defs empty_world_def Let_def split: sum.splits list.splits)

lemma handle_returns: "\<exists>s. fst (handle env t w) = Inr s"
  by (cases t) (simp_all add: py_defs Let_def split: sum.splits list.splits)

lemma handle_tool_calls: "tool_calls (trace (snd (handle env t empty_world))) = [t]"
  by (cases t) (simp_all add: py_defs empty_world_def Let_def split: sum.splits list.splits)

lemma handle_agent_calls: "filter agent_call (trace (snd (handle env t empty_world))) = [ToolHandle t]"
  by (cases t) (simp_all add: py_defs empty_world_def Let_def split: sum.splits list.splits)

subsection \<open>The counters\<close>

lemma metrics_okE:
  assumes "metrics_ok w self"
  obtains d n l1 l2 xs ys where
    "cells w (conversation_metrics self) = DictObj d"
    "d ''total_messages'' = Some (IntV n)"
    "d ''user_satisfaction'' = Some (Ref l1)"
    "d ''conversion_indicators'' = Some (Ref l2)"
    "cells w l1 = ListObj xs" "cells w l2 = ListObj ys"
    "l1 \<noteq> l2" "conversation_metrics self < next_free w" "l1 < next_free w" "l2 < next_free w"
  using assms
  by (auto simp: metrics_ok_def metrics_of_def entry_int_def entry_ref_def list_at_def
      split: pyobj.splits option.splits pyval.splits)

lemma metrics_ok_metrics_of:
  assumes "metrics_ok w self"
  shows "\<exists>m. metrics_of w self = Some m"
  using assms by (auto simp: metrics_ok_def)

lemma list_ex_positive:
  "list_ex (\<lambda>i. py_in i s) positive_indicators \<longleftrightarrow>
     py_in (lit ''gracias'') s \<or> py_in (lit ''perfecto'') s
       \<or> py_in (lit ''excelente'') s \<or> py_in (lit ''me gusta'') s"
  by (simp add: positive_indicators_def)

lemma list_ex_conversion:
  "list_ex (\<lambda>i. py_in i s) conversion_indicators \<longleftrightarrow>
     py_in (lit ''comprar'') s \<or> py_in (lit ''precio'') s
       \<or> py_in (lit ''disponible'') s \<or> py_in (lit ''stock'') s"
  by (simp add: conversion_indicators_def)

lemma track_effect:
  assumes ok: "metrics_ok w self" and m: "metrics_of w self = Some m"
  shows "fst (track_conversation lower self user_msg bot_response w) = Inr ()"
    and "metrics_ok (snd (track_conversation lower self user_msg bot_response w)) self"
    and "metrics_of (snd (track_conversation lower self user_msg bot_response w)) self
           = Some (spec_tracked lower user_msg m)"
    and "trace (snd (track_conversation lower self user_msg bot_response w))
           = trace w @ [TrackConversation user_msg bot_response]"
proof -
  from ok obtain d n l1 l2 xs ys where f:
    "cells w (conversation_metrics self) = DictObj d"
    "d ''total_messages'' = Some (IntV n)"
    "d ''user_satisfaction'' = Some (Ref l1)"
    "d ''conversion_indicators'' = Some (Ref l2)"
    "cells w l1 = ListObj xs" "cells w l2 = ListObj ys"
    "l1 \<noteq> l2" "conversation_metrics self < next_free w" "l1 < next_free w" "l2 < next_free w"
    by (rule metrics_okE)
  from f have ne: "l1 \<noteq> conversation_metrics self" "l2 \<noteq> conversation_metrics self"
    by auto
  from m f have mm: "m = \<lparr>m_total_messages = n, m_user_satisfaction = xs, m_conversion_indicators = ys\<rparr>"
    by (simp add: metrics_of_def entry_int_def entry_ref_def list_at_def)
  note defs = track_conversation_def py_defs getitem_def setitem_def iadd_def append_py_def
  show "fst (track_conversation lower self user_msg bot_response w) = Inr ()"
    using f ne by (simp add: defs)
  show "metrics_ok (snd (track_conversation lower self user_msg bot_response w)) self"
    using f ne by (simp add: defs metrics_ok_def metrics_of_def entry_int_def entry_ref_def list_at_def)
  show "metrics_of (snd (track_conversation lower self user_msg bot_response w)) self
           = Some (spec_tracked lower user_msg m)"
    using f ne by (simp add: defs metrics_of_def entry_int_def entry_ref_def list_at_def mm spec_tracked_def list_ex_positive list_ex_conversion)
  show "trace (snd (track_conversation lower self user_msg bot_response w))
           = trace w @ [TrackConversation user_msg bot_response]"
    using f ne by (simp add: defs)
qed

lemma init_effect:
  "fst (AnalyticsAgent_init w) = Inr \<lparr>conversation_metrics = next_free w + 2\<rparr>"
  "metrics_ok (snd (AnalyticsAgent_init w)) \<lparr>conversation_metrics = next_free w + 2\<rparr>"
  "metrics_of (snd (AnalyticsAgent_init w)) \<lparr>conversation_metrics = next_free w + 2\<rparr>
     = Some \<lparr>m_total_messages = 0, m_user_satisfaction = [], m_conversion_indicators = []\<rparr>"
  by (simp_all add: AnalyticsAgent_init_def py_defs allocate_def metrics_ok_def metrics_of_def
      entry_int_def entry_ref_def list_at_def)

lemma tracked_inv: "counters_inv m \<Longrightarrow> counters_inv (spec_tracked lower user_msg m)"
  by (auto simp: counters_inv_def spec_tracked_def)

lemma track_all_effect:
  assumes "metrics_ok w self" and "metrics_of w self = Some m" and "counters_inv m"
  shows "\<exists>m'. fst (track_all lower self calls w) = Inr ()
           \<and> metrics_of (snd (track_all lower self calls w)) self = Some m'
           \<and> counters_inv m'"
  using assms
proof (induction calls arbitrary: w m)
  case Nil
  then show ?case by (simp add: py_return_def)
next
  case (Cons c calls)
  obtain u b where c: "c = (u, b)" by (cases c)
  obtain r w1 where r: "track_conversation lower self u b w = (r, w1)"
    by (cases "track_conversation lower self u b w")
  have r1: "r = Inr ()"
    using track_effect(1)[OF Cons.prems(1,2), of lower u b] by (simp add: r)
  have ok1: "metrics_ok w1 self"
    using track_effect(2)[OF Cons.prems(1,2), of lower u b] by (simp add: r)
  have m1: "metrics_of w1 self = Some (spec_tracked lower u m)"
    using track_effect(3)[OF Cons.prems(1,2), of lower u b] by (simp add: r)
  have "\<exists>m'. fst (track_all lower self calls w1) = Inr ()
           \<and> metrics_of (snd (track_all lower self calls w1)) self = Some m'
           \<and> counters_inv m'"
    using Cons.IH[OF ok1 m1 tracked_inv[OF Cons.prems(3)]] .
  then show ?case by (simp add: c py_bind_def r r1)
qed

lemma py_try_Inr: "fst (m w) = Inr x \<Longrightarrow> py_try m h w = m w"
  by (cases "m w") (simp add: py_try_def)

lemma knowledge_delegates:
  "KnowledgeAgent_handle_message_fallback lower env msg w = handle env (spec_route lower msg) w"
proof -
  obtain s where "fst (handle env (spec_route lower msg) w) = Inr s"
    using handle_returns by blast
  then have "py_try (handle env (spec_route lower msg)) (\<lambda>e. py_return knowledge_error) w
               = handle env (spec_route lower msg) w"
    by (rule py_try_Inr)
  moreover have "KnowledgeAgent_handle_message_fallback lower env msg
                   = py_try (handle env (spec_route lower msg)) (\<lambda>e. py_return knowledge_error)"
    by (simp add: KnowledgeAgent_handle_message_fallback_def spec_route_def)
  ultimately show ?thesis by simp
qed

subsection \<open>The pipeline\<close>

lemma metrics_trace_update [simp]:
  "metrics_of (w\<lparr>trace := t\<rparr>) self = metrics_of w self"
  "metrics_ok (w\<lparr>trace := t\<rparr>) self = metrics_ok w self"
  by (simp_all add: metrics_ok_def metrics_of_def list_at_def cong: option.case_cong)

lemma sales_result:
  "SalesAgent_handle_message_fallback lower msg w =
     (Inr (if py_in (lit ''uniforme'') (lower msg) then sales_prefix @ suggestion_uniforme
           else if py_in (lit ''cinturon'') (lower msg) then sales_prefix @ suggestion_cinturon
           else if py_in (lit ''proteccion'') (lower msg) then sales_prefix @ suggestion_proteccion
           else sales_filler), w)"
  by (simp add: SalesAgent_handle_message_fallback_def py_try_def py_return_def)

lemma track_run:
  assumes "metrics_ok w self" and "metrics_of w self = Some m"
  obtains w1 where "track_conversation lower self user_msg bot_response w = (Inr (), w1)"
    and "metrics_ok w1 self" and "metrics_of w1 self = Some (spec_tracked lower user_msg m)"
    and "trace w1 = trace w @ [TrackConversation user_msg bot_response]"
proof -
  obtain r w1 where r: "track_conversation lower self user_msg bot_response w = (r, w1)"
    by (cases "track_conversation lower self user_msg bot_response w")
  show thesis
    using track_effect[OF assms, of lower user_msg bot_response] that[of w1] by (simp add: r)
qed

lemma knowledge_run:
  assumes "fst (KnowledgeAgent_handle_message_fallback lower env msg w0) = Inr kr"
  shows "KnowledgeAgent_handle_message_fallback lower env msg w =
           (Inr kr, w\<lparr>trace := trace w @ trace (snd (handle env (spec_route lower msg) empty_world))\<rparr>)"
proof -
  have "fst (handle env (spec_route lower msg) empty_world) = Inr kr"
    using assms handle_run[of env "spec_route lower msg" w0] by (simp add: knowledge_delegates)
  then show ?thesis
    using handle_run[of env "spec_route lower msg" w] by (simp add: knowledge_delegates)
qed

lemma body_run:
  assumes ok: "metrics_ok w (analytics_agent self)"
    and m: "metrics_of w (analytics_agent self) = Some m"
    and kr: "fst (KnowledgeAgent_handle_message_fallback lower env message w) = Inr kr"
    and sr: "fst (SalesAgent_handle_message_fallback lower message w) = Inr sr"
  shows "case llm_response_async env (context_prompt message kr sr) of
           Inl e \<Rightarrow>
             fst (handle_user_message_body lower env self message w) = Inl e
             \<and> metrics_of (snd (handle_user_message_body lower env self message w)) (analytics_agent self)
                 = Some (spec_tracked lower message m)
             \<and> trace (snd (handle_user_message_body lower env self message w))
                 = trace w @ [TrackConversation message []]
                     @ trace (snd (handle env (spec_route lower message) empty_world))
                     @ [LlmResponseAsync (context_prompt message kr sr)]
         | Inr final \<Rightarrow>
             fst (handle_user_message_body lower env self message w) = Inr final
             \<and> metrics_ok (snd (handle_user_message_body lower env self message w)) (analytics_agent self)
             \<and> metrics_of (snd (handle_user_message_body lower env self message w)) (analytics_agent self)
                 = Some (spec_tracked lower message (spec_tracked lower message m))
             \<and> trace (snd (handle_user_message_body lower env self message w))
                 = trace w @ [TrackConversation message []]
                     @ trace (snd (handle env (spec_route lower message) empty_world))
                     @ [LlmResponseAsync (context_prompt message kr sr),
                        TrackConversation message final]"
proof -
  let ?ag = "analytics_agent self"
  let ?p = "context_prompt message kr sr"
  let ?evs = "trace (snd (handle env (spec_route lower message) empty_world))"
  obtain w1 where t1: "track_conversation lower ?ag message [] w = (Inr (), w1)"
    and ok1: "metrics_ok w1 ?ag" and m1: "metrics_of w1 ?ag = Some (spec_tracked lower message m)"
    and tr1: "trace w1 = trace w @ [TrackConversation message []]"
    using track_run[OF ok m] by metis
  have k: "KnowledgeAgent_handle_message_fallback lower env message w1 =
             (Inr kr, w1\<lparr>trace := trace w1 @ ?evs\<rparr>)"
    using kr by (rule knowledge_run)
  let ?w2 = "w1\<lparr>trace := trace w1 @ ?evs\<rparr>"
  have s: "SalesAgent_handle_message_fallback lower message w' = (Inr sr, w')" for w'
    using sr by (simp add: sales_result)
  let ?w3 = "?w2\<lparr>trace := trace ?w2 @ [LlmResponseAsync ?p]\<rparr>"
  show ?thesis
  proof (cases "llm_response_async env ?p")
    case (Inl e)
    then show ?thesis
      by (simp add: handle_user_message_body_def py_bind_def call_def t1 k s m1 tr1)
  next
    case (Inr final)
    have ok3: "metrics_ok ?w3 ?ag" and m3: "metrics_of ?w3 ?ag = Some (spec_tracked lower message m)"
      using ok1 m1 by simp_all
    obtain w4 where t4: "track_conversation lower ?ag message final ?w3 = (Inr (), w4)"
      and ok4: "metrics_ok w4 ?ag"
      and m4: "metrics_of w4 ?ag = Some (spec_tracked lower message (spec_tracked lower message m))"
      and tr4: "trace w4 = trace ?w3 @ [TrackConversation message final]"
      using track_run[OF ok3 m3] by metis
    have "handle_user_message_body lower env self message w = (Inr final, w4)"
      using t4 by (simp add: handle_user_message_body_def py_bind_def py_return_def call_def t1 k s Inr)
    then show ?thesis
      using ok4 m4 tr4 by (simp add: Inr tr1)
  qed
qed

lemma sales_prefix_cases:
  "prefix (lit ''Sugerencias adicionales:'') (sales_prefix @ s)"
  "\<not> prefix (lit ''Sugerencias adicionales:'') sales_filler"
  by (simp_all add: sales_prefix_def sales_filler_def lit_def)

lemmas store_defs =
  AnalyticsAgent_init_def allocate_def getitem_def setitem_def delitem_def iadd_def append_py_def
  copy_def get_metrics_def track_conversation_def metrics_of_def metrics_ok_def entry_int_def
  entry_ref_def list_at_def positive_indicators_def conversion_indicators_def

lemmas pipeline_defs =
  handle_user_message_def handle_user_message_body_def KnowledgeAgent_handle_message_fallback_def
  SalesAgent_handle_message_fallback_def category_filters_def stub_env_def failing_def
  ascii_lower_def lit_def empty_world_def Let_def

lemma metrics_of_cells:
  "cells w = cells w' \<Longrightarrow> metrics_of w self = metrics_of w' self"
  by (simp add: metrics_of_def list_at_def cong: option.case_cong)

lemma track_ignores_response:
  "fst (track_conversation lower self user_msg b1 w) = fst (track_conversation lower self user_msg b2 w)"
  "cells (snd (track_conversation lower self user_msg b1 w))
     = cells (snd (track_conversation lower self user_msg b2 w))"
  "next_free (snd (track_conversation lower self user_msg b1 w))
     = next_free (snd (track_conversation lower self user_msg b2 w))"
  by (simp_all add: track_conversation_def py_defs getitem_def setitem_def iadd_def append_py_def
      split: pyobj.splits option.splits pyval.splits)

lemma knowledge_returns: "\<exists>kr. fst (KnowledgeAgent_handle_message_fallback lower env msg w) = Inr kr"
  using handle_returns[of env "spec_route lower msg" w] by (simp add: knowledge_delegates)

lemma sales_returns: "\<exists>sr. fst (SalesAgent_handle_message_fallback lower msg w) = Inr sr"
  by (simp add: sales_result)

lemma py_try_Inl: "fst (m w) = Inl e \<Longrightarrow> fst (py_try m (\<lambda>e. py_return x) w) = Inr x"
  by (cases "m w") (simp add: py_try_def py_return_def)

section \<open>The claims\<close>

text \<open>
  C1. For every message, \<open>KnowledgeAgent.handle_message_fallback\<close> runs exactly one tool:
  the promotion search when the lower-cased message contains \<open>promocion\<close>, \<open>descuento\<close>
  or \<open>oferta\<close>, and otherwise the product search with the whole message as the query. The
  call is the call of that tool's \<open>handle\<close>, and the record of the run gains that one tool.
\<close>

theorem knowledge_agent_invokes_one_tool:
  "KnowledgeAgent_handle_message_fallback lower env msg w = handle env (spec_route lower msg) w
   \<and> tool_calls (trace (snd (KnowledgeAgent_handle_message_fallback lower env msg w)))
       = tool_calls (trace w) @ [spec_route lower msg]"
proof -
  have "tool_calls (trace (snd (handle env (spec_route lower msg) w)))
          = tool_calls (trace w) @ [spec_route lower msg]"
    using handle_run[of env "spec_route lower msg" w]
    by (simp add: tool_calls_append handle_tool_calls)
  then show ?thesis by (simp add: knowledge_delegates)
qed

theorem knowledge_agent_invokes_one_tool_witness:
  "tool_calls (trace (snd (KnowledgeAgent_handle_message_fallback ascii_lower stub_env
       (lit ''Tienen DESCUENTO en uniformes?'') empty_world))) = [PromotionSearchTool]
   \<and> tool_calls (trace (snd (KnowledgeAgent_handle_message_fallback ascii_lower stub_env
       (lit ''Busco un cinturon negro'') empty_world)))
       = [ProductSearchTool (lit ''Busco un cinturon negro'') None 5]"
  using knowledge_agent_invokes_one_tool[of ascii_lower stub_env
      "lit ''Tienen DESCUENTO en uniformes?''" empty_world, THEN conjunct2]
    knowledge_agent_invokes_one_tool[of ascii_lower stub_env
      "lit ''Busco un cinturon negro''" empty_world, THEN conjunct2]
  by (simp add: empty_world_def ascii_lower_def lit_def spec_route_def)

text \<open>
  C2. \<open>SalesAgent.handle_message_fallback\<close> returns one suggestion after the prefix
  \<open>Sugerencias adicionales:\<close> exactly when the lower-cased message contains \<open>uniforme\<close>,
  \<open>cinturon\<close> or \<open>proteccion\<close>; the first keyword in that order decides which one, also
  when several occur; with no keyword the result is the filler string. The world is not
  changed.
\<close>

theorem sales_agent_first_keyword_wins:
  "let r = (if py_in (lit ''uniforme'') (lower msg) then sales_prefix @ suggestion_uniforme
            else if py_in (lit ''cinturon'') (lower msg) then sales_prefix @ suggestion_cinturon
            else if py_in (lit ''proteccion'') (lower msg) then sales_prefix @ suggestion_proteccion
            else sales_filler)
   in SalesAgent_handle_message_fallback lower msg w = (Inr r, w)
      \<and> (prefix (lit ''Sugerencias adicionales:'') r \<longleftrightarrow>
           py_in (lit ''uniforme'') (lower msg) \<or> py_in (lit ''cinturon'') (lower msg)
             \<or> py_in (lit ''proteccion'') (lower msg))"
  by (simp add: Let_def sales_result sales_prefix_cases)

theorem sales_agent_first_keyword_wins_witness:
  "SalesAgent_handle_message_fallback ascii_lower (lit ''Un CINTURON y un Uniforme'') empty_world
     = (Inr (sales_prefix @ suggestion_uniforme), empty_world)
   \<and> SalesAgent_handle_message_fallback ascii_lower (lit ''hola'') empty_world
     = (Inr sales_filler, empty_world)"
  using sales_agent_first_keyword_wins[of ascii_lower "lit ''Un CINTURON y un Uniforme''" empty_world]
    sales_agent_first_keyword_wins[of ascii_lower "lit ''hola''" empty_world]
  by (simp add: Let_def ascii_lower_def lit_def)

text \<open>
  C3, as stated, fails: \<open>get_metrics\<close> returns \<open>conversation_metrics.copy()\<close>, a new dict
  holding the same two list objects. After \<open>m = agent.get_metrics()\<close> on a new agent,
  \<open>m["user_satisfaction"].append("x")\<close> succeeds and the agent's own \<open>user_satisfaction\<close>
  is \<open>["x"]\<close>, no longer empty.
\<close>

theorem get_metrics_shares_nested_lists:
  "metrics_of (snd (AnalyticsAgent_init empty_world)) \<lparr>conversation_metrics = 2\<rparr>
     = Some \<lparr>m_total_messages = 0, m_user_satisfaction = [], m_conversion_indicators = []\<rparr>
   \<and> fst (caller_appends \<lparr>conversation_metrics = 2\<rparr> ''user_satisfaction'' (lit ''x'')
           (snd (AnalyticsAgent_init empty_world))) = Inr ()
   \<and> metrics_of
        (snd (caller_appends \<lparr>conversation_metrics = 2\<rparr> ''user_satisfaction'' (lit ''x'')
               (snd (AnalyticsAgent_init empty_world))))
        \<lparr>conversation_metrics = 2\<rparr>
     = Some \<lparr>m_total_messages = 0, m_user_satisfaction = [lit ''x''], m_conversion_indicators = []\<rparr>"
  by (simp add: store_defs py_defs empty_world_def caller_appends_def)

text \<open>
  C3, amended. On counters of the shape \<open>__init__\<close> builds, \<open>get_metrics\<close> returns a newly
  allocated dict that holds the entries of the internal dict, the references to the two
  lists included; it changes no existing object, so the counters of the agent are the same
  after the call; and binding a key of the returned dict to another value, or deleting
  one, leaves the counters of the agent as they were.
\<close>

theorem get_metrics_copies_top_level:
  assumes "metrics_ok w self"
  shows "fst (get_metrics self w) = Inr (next_free w)
         \<and> cells (snd (get_metrics self w))
             = (cells w)(next_free w := cells w (conversation_metrics self))
         \<and> conversation_metrics self \<noteq> next_free w
         \<and> metrics_of (snd (get_metrics self w)) self = metrics_of w self
         \<and> metrics_of (snd (caller_rebinds self k v w)) self = metrics_of w self
         \<and> metrics_of (snd (caller_deletes self k' w)) self = metrics_of w self"
proof -
  from assms obtain d n l1 l2 xs ys where f:
    "cells w (conversation_metrics self) = DictObj d"
    "d ''total_messages'' = Some (IntV n)"
    "d ''user_satisfaction'' = Some (Ref l1)"
    "d ''conversion_indicators'' = Some (Ref l2)"
    "cells w l1 = ListObj xs" "cells w l2 = ListObj ys"
    "l1 \<noteq> l2" "conversation_metrics self < next_free w" "l1 < next_free w" "l2 < next_free w"
    by (rule metrics_okE)
  then have ne: "conversation_metrics self \<noteq> next_free w" "l1 \<noteq> next_free w" "l2 \<noteq> next_free w"
    by simp_all
  note defs = get_metrics_def copy_def allocate_def py_defs setitem_def delitem_def
    caller_rebinds_def caller_deletes_def metrics_of_def entry_int_def entry_ref_def list_at_def
  show ?thesis
    using f ne by (simp add: defs split: option.splits)
qed

theorem get_metrics_copies_top_level_witness:
  "metrics_ok (snd (AnalyticsAgent_init empty_world)) \<lparr>conversation_metrics = 2\<rparr>
   \<and> fst (get_metrics \<lparr>conversation_metrics = 2\<rparr> (snd (AnalyticsAgent_init empty_world))) = Inr 3
   \<and> metrics_of
        (snd (caller_rebinds \<lparr>conversation_metrics = 2\<rparr> ''total_messages'' (IntV 99)
               (snd (AnalyticsAgent_init empty_world))))
        \<lparr>conversation_metrics = 2\<rparr>
       = Some \<lparr>m_total_messages = 0, m_user_satisfaction = [], m_conversion_indicators = []\<rparr>
   \<and> metrics_of
        (snd (caller_deletes \<lparr>conversation_metrics = 2\<rparr> ''user_satisfaction''
               (snd (AnalyticsAgent_init empty_world))))
        \<lparr>conversation_metrics = 2\<rparr>
       = Some \<lparr>m_total_messages = 0, m_user_satisfaction = [], m_conversion_indicators = []\<rparr>"
proof -
  have ok: "metrics_ok (snd (AnalyticsAgent_init empty_world)) \<lparr>conversation_metrics = 2\<rparr>"
    by (simp add: store_defs py_defs empty_world_def)
  have m: "metrics_of (snd (AnalyticsAgent_init empty_world)) \<lparr>conversation_metrics = 2\<rparr>
       = Some \<lparr>m_total_messages = 0, m_user_satisfaction = [], m_conversion_indicators = []\<rparr>"
    by (simp add: store_defs py_defs empty_world_def)
  have n: "next_free (snd (AnalyticsAgent_init empty_world)) = 3"
    by (simp add: store_defs py_defs empty_world_def)
  show ?thesis
    using ok m n get_metrics_copies_top_level[OF ok, of "''total_messages''" "IntV 99"
        "''user_satisfaction''"]
    by simp
qed

text \<open>
  C4. A call \<open>track_conversation(user_msg, bot_response)\<close> on counters of the shape
  \<open>__init__\<close> builds returns without raising and leaves counters of that shape, with
  \<open>total_messages\<close> one higher, \<open>positive\<close> appended to \<open>user_satisfaction\<close> exactly when
  the lower-cased message contains \<open>gracias\<close>, \<open>perfecto\<close>, \<open>excelente\<close> or \<open>me gusta\<close>, and
  the first 50 characters of the message appended to \<open>conversion_indicators\<close> exactly when
  it contains \<open>comprar\<close>, \<open>precio\<close>, \<open>disponible\<close> or \<open>stock\<close>.
\<close>

theorem track_conversation_counts:
  assumes "metrics_ok w self" and "metrics_of w self = Some m"
  shows "fst (track_conversation lower self user_msg bot_response w) = Inr ()
         \<and> metrics_of (snd (track_conversation lower self user_msg bot_response w)) self
             = Some (spec_tracked lower user_msg m)
         \<and> metrics_ok (snd (track_conversation lower self user_msg bot_response w)) self
         \<and> length (take 50 user_msg) \<le> 50"
  using track_effect[OF assms, of lower user_msg bot_response] by simp

theorem track_conversation_counts_witness:
  "metrics_ok (snd (AnalyticsAgent_init empty_world)) \<lparr>conversation_metrics = 2\<rparr>
   \<and> metrics_of (snd (AnalyticsAgent_init empty_world)) \<lparr>conversation_metrics = 2\<rparr>
       = Some \<lparr>m_total_messages = 0, m_user_satisfaction = [], m_conversion_indicators = []\<rparr>
   \<and> metrics_of
        (snd (track_conversation ascii_lower \<lparr>conversation_metrics = 2\<rparr>
               (lit ''GRACIAS. Cual es el PRECIO del uniforme de taekwondo talla 3?'') (lit ''Hola'')
               (snd (AnalyticsAgent_init empty_world))))
        \<lparr>conversation_metrics = 2\<rparr>
       = Some \<lparr>m_total_messages = 1, m_user_satisfaction = [lit ''positive''],
               m_conversion_indicators = [lit ''GRACIAS. Cual es el PRECIO del uniforme de taekwon'']\<rparr>"
proof -
  have ok: "metrics_ok (snd (AnalyticsAgent_init empty_world)) \<lparr>conversation_metrics = 2\<rparr>"
    by (simp add: store_defs py_defs empty_world_def)
  have m: "metrics_of (snd (AnalyticsAgent_init empty_world)) \<lparr>conversation_metrics = 2\<rparr>
       = Some \<lparr>m_total_messages = 0, m_user_satisfaction = [], m_conversion_indicators = []\<rparr>"
    by (simp add: store_defs py_defs empty_world_def)
  show ?thesis
    using ok m track_conversation_counts[OF ok m, of ascii_lower
        "lit ''GRACIAS. Cual es el PRECIO del uniforme de taekwondo talla 3?''" "lit ''Hola''"]
    by (simp add: spec_tracked_def ascii_lower_def lit_def)
qed

text \<open>
  C5. When the \<open>try\<close> body of \<open>handle_user_message\<close> ends without an exception, the calls
  the agent made are, in order: \<open>track_conversation\<close> with the empty response, the one tool
  of the knowledge agent, the LLM, and \<open>track_conversation\<close> with the response of the LLM,
  which is also the value returned; \<open>total_messages\<close> is two higher than before.
\<close>

theorem handle_user_message_tracks_twice:
  assumes "metrics_ok w (analytics_agent self)"
    and "metrics_of w (analytics_agent self) = Some m"
    and "fst (handle_user_message_body lower env self message w) = Inr final"
  shows "\<exists>kr sr.
           fst (KnowledgeAgent_handle_message_fallback lower env message w) = Inr kr
         \<and> fst (SalesAgent_handle_message_fallback lower message w) = Inr sr
         \<and> llm_response_async env (context_prompt message kr sr) = Inr final
         \<and> fst (handle_user_message lower env self message w) = Inr final
         \<and> filter agent_call (trace (snd (handle_user_message lower env self message w)))
             = filter agent_call (trace w)
                 @ [TrackConversation message [], ToolHandle (spec_route lower message),
                    LlmResponseAsync (context_prompt message kr sr),
                    TrackConversation message final]
         \<and> (\<exists>m'. metrics_of (snd (handle_user_message lower env self message w))
                      (analytics_agent self) = Some m'
                \<and> m_total_messages m' = m_total_messages m + 2)"
proof -
  obtain kr where kr: "fst (KnowledgeAgent_handle_message_fallback lower env message w) = Inr kr"
    using knowledge_returns by blast
  obtain sr where sr: "fst (SalesAgent_handle_message_fallback lower message w) = Inr sr"
    using sales_returns by blast
  have hum: "handle_user_message lower env self message w
               = handle_user_message_body lower env self message w"
    unfolding handle_user_message_def using assms(3) by (rule py_try_Inr)
  note run = body_run[OF assms(1,2) kr sr]
  have llm: "llm_response_async env (context_prompt message kr sr) = Inr final"
    using run assms(3) by (cases "llm_response_async env (context_prompt message kr sr)") simp_all
  from run llm have
    tr: "trace (snd (handle_user_message_body lower env self message w))
           = trace w @ [TrackConversation message []]
               @ trace (snd (handle env (spec_route lower message) empty_world))
               @ [LlmResponseAsync (context_prompt message kr sr), TrackConversation message final]"
    and mo: "metrics_of (snd (handle_user_message_body lower env self message w)) (analytics_agent self)
           = Some (spec_tracked lower message (spec_tracked lower message m))"
    by simp_all
  have "filter agent_call (trace (snd (handle_user_message_body lower env self message w)))
          = filter agent_call (trace w)
              @ [TrackConversation message [], ToolHandle (spec_route lower message),
                 LlmResponseAsync (context_prompt message kr sr), TrackConversation message final]"
    by (simp add: tr handle_agent_calls)
  moreover have "m_total_messages (spec_tracked lower message (spec_tracked lower message m))
                   = m_total_messages m + 2"
    by (simp add: spec_tracked_def)
  ultimately show ?thesis
    using kr sr llm assms(3) mo by (auto simp: hum)
qed

theorem handle_user_message_tracks_twice_witness:
  "metrics_ok (snd (MainBaekhoAgent_init empty_world))
      (analytics_agent \<lparr>analytics_agent = \<lparr>conversation_metrics = 2\<rparr>\<rparr>)
   \<and> fst (handle_user_message_body ascii_lower stub_env
            \<lparr>analytics_agent = \<lparr>conversation_metrics = 2\<rparr>\<rparr> (lit ''Hay stock?'')
            (snd (MainBaekhoAgent_init empty_world))) = Inr (lit ''Hola'')
   \<and> (\<exists>m'. metrics_of
              (snd (handle_user_message ascii_lower stub_env
                     \<lparr>analytics_agent = \<lparr>conversation_metrics = 2\<rparr>\<rparr> (lit ''Hay stock?'')
                     (snd (MainBaekhoAgent_init empty_world))))
              \<lparr>conversation_metrics = 2\<rparr> = Some m'
          \<and> m_total_messages m' = 2)"
proof -
  let ?self = "\<lparr>analytics_agent = \<lparr>conversation_metrics = 2\<rparr>\<rparr>"
  let ?w = "snd (MainBaekhoAgent_init empty_world)"
  have ok: "metrics_ok ?w (analytics_agent ?self)"
    by (simp add: MainBaekhoAgent_init_def store_defs py_defs empty_world_def)
  have m: "metrics_of ?w (analytics_agent ?self)
             = Some \<lparr>m_total_messages = 0, m_user_satisfaction = [], m_conversion_indicators = []\<rparr>"
    by (simp add: MainBaekhoAgent_init_def store_defs py_defs empty_world_def)
  have b: "fst (handle_user_message_body ascii_lower stub_env ?self (lit ''Hay stock?'') ?w)
             = Inr (lit ''Hola'')"
    by (simp add: MainBaekhoAgent_init_def store_defs py_defs pipeline_defs)
  show ?thesis
    using ok b handle_user_message_tracks_twice[OF ok m b] by auto
qed

text \<open>
  C6. \<open>handle\<close> of a tool never raises. When a call it makes to a collaborator raises
  \<open>e\<close> (the calls before it having returned), \<open>handle\<close> returns the error prefix of the
  tool followed by \<open>str(e)\<close>: for the product search the construction of the vector
  service, the import and construction of the embedding service, \<open>encode_query\<close> and
  \<open>search_similar\<close>; for the promotion search the construction of the vector service and
  \<open>search_similar\<close>; for the user history the two imports, the construction of the two
  controllers, \<open>get_chats_by_usuario\<close> and \<open>get_mensajes_by_chat\<close>.
\<close>

theorem tools_turn_failures_into_error_strings:
  "(\<exists>s. fst (handle env t w) = Inr s)
   \<and> (new_QdrantService env = Inl e
        \<or> new_QdrantService env = Inr () \<and> import_EmbeddingService env = Inl e
        \<or> new_QdrantService env = Inr () \<and> import_EmbeddingService env = Inr ()
            \<and> new_EmbeddingService env = Inl e
        \<or> new_QdrantService env = Inr () \<and> import_EmbeddingService env = Inr ()
            \<and> new_EmbeddingService env = Inr () \<and> encode_query env q = Inl e
        \<or> new_QdrantService env = Inr () \<and> import_EmbeddingService env = Inr ()
            \<and> new_EmbeddingService env = Inr ()
            \<and> (\<exists>v. encode_query env q = Inr v
                  \<and> search_similar env v n (category_filters c) = Inl e)
      \<longrightarrow> fst (handle env (ProductSearchTool q c n) w)
            = Inr (lit ''Error ejecutando b'' @ [0xFA] @ lit ''squeda: '' @ exn_str e))
   \<and> (new_QdrantService env = Inl e
        \<or> new_QdrantService env = Inr ()
            \<and> search_similar env (replicate 384 0) 10 promotion_filters = Inl e
      \<longrightarrow> fst (handle env PromotionSearchTool w)
            = Inr (lit ''Error obteniendo promociones: '' @ exn_str e))
   \<and> (import_ChatController env = Inl e
        \<or> import_ChatController env = Inr () \<and> import_MensajeController env = Inl e
        \<or> import_ChatController env = Inr () \<and> import_MensajeController env = Inr ()
            \<and> new_ChatController env = Inl e
        \<or> import_ChatController env = Inr () \<and> import_MensajeController env = Inr ()
            \<and> new_ChatController env = Inr () \<and> get_chats_by_usuario env u = Inl e
        \<or> import_ChatController env = Inr () \<and> import_MensajeController env = Inr ()
            \<and> new_ChatController env = Inr ()
            \<and> (\<exists>ch chs. get_chats_by_usuario env u = Inr (ch # chs)
                  \<and> (new_MensajeController env = Inl e
                       \<or> new_MensajeController env = Inr ()
                           \<and> get_mensajes_by_chat env (chat_id ch) k 0 = Inl e))
      \<longrightarrow> fst (handle env (UserHistoryTool u k) w)
            = Inr (lit ''Error obteniendo historial: '' @ exn_str e))"
proof -
  have a: "\<exists>s. fst (handle env t w) = Inr s" by (rule handle_returns)
  have p: "fst (handle env (ProductSearchTool q c n) w)
            = Inr (lit ''Error ejecutando b'' @ [0xFA] @ lit ''squeda: '' @ exn_str e)"
    if "new_QdrantService env = Inl e
        \<or> new_QdrantService env = Inr () \<and> import_EmbeddingService env = Inl e
        \<or> new_QdrantService env = Inr () \<and> import_EmbeddingService env = Inr ()
            \<and> new_EmbeddingService env = Inl e
        \<or> new_QdrantService env = Inr () \<and> import_EmbeddingService env = Inr ()
            \<and> new_EmbeddingService env = Inr () \<and> encode_query env q = Inl e
        \<or> new_QdrantService env = Inr () \<and> import_EmbeddingService env = Inr ()
            \<and> new_EmbeddingService env = Inr ()
            \<and> (\<exists>v. encode_query env q = Inr v
                  \<and> search_similar env v n (category_filters c) = Inl e)"
    using that
    by (elim disjE conjE exE) (simp_all add: py_defs Let_def product_error_prefix_def)
  have r: "fst (handle env PromotionSearchTool w)
            = Inr (lit ''Error obteniendo promociones: '' @ exn_str e)"
    if "new_QdrantService env = Inl e
        \<or> new_QdrantService env = Inr ()
            \<and> search_similar env (replicate 384 0) 10 promotion_filters = Inl e"
    using that
    by (elim disjE conjE exE) (simp_all add: py_defs Let_def promotion_error_prefix_def)
  have h: "fst (handle env (UserHistoryTool u k) w)
            = Inr (lit ''Error obteniendo historial: '' @ exn_str e)"
    if "import_ChatController env = Inl e
        \<or> import_ChatController env = Inr () \<and> import_MensajeController env = Inl e
        \<or> import_ChatController env = Inr () \<and> import_MensajeController env = Inr ()
            \<and> new_ChatController env = Inl e
        \<or> import_ChatController env = Inr () \<and> import_MensajeController env = Inr ()
            \<and> new_ChatController env = Inr () \<and> get_chats_by_usuario env u = Inl e
        \<or> import_ChatController env = Inr () \<and> import_MensajeController env = Inr ()
            \<and> new_ChatController env = Inr ()
            \<and> (\<exists>ch chs. get_chats_by_usuario env u = Inr (ch # chs)
                  \<and> (new_MensajeController env = Inl e
                       \<or> new_MensajeController env = Inr ()
                           \<and> get_mensajes_by_chat env (chat_id ch) k 0 = Inl e))"
    using that
    by (elim disjE conjE exE) (simp_all add: py_defs Let_def history_error_prefix_def)
  from a p r h show ?thesis by blast
qed

theorem tools_turn_failures_into_error_strings_witness:
  "fst (handle (stub_env\<lparr>search_similar := (\<lambda>v n f. Inl failing)\<rparr>)
          (ProductSearchTool (lit ''dobok'') None 5) empty_world)
     = Inr (lit ''Error ejecutando b'' @ [0xFA] @ lit ''squeda: timeout'')
   \<and> fst (handle (stub_env\<lparr>search_similar := (\<lambda>v n f. Inl failing)\<rparr>)
          PromotionSearchTool empty_world)
     = Inr (lit ''Error obteniendo promociones: timeout'')
   \<and> fst (handle (stub_env\<lparr>get_chats_by_usuario := (\<lambda>u. Inl failing)\<rparr>)
          (UserHistoryTool 7 10) empty_world)
     = Inr (lit ''Error obteniendo historial: timeout'')"
  using tools_turn_failures_into_error_strings
      [where env = "stub_env\<lparr>search_similar := (\<lambda>v n f. Inl failing)\<rparr>"
         and t = PromotionSearchTool and w = empty_world and e = failing and q = "lit ''dobok''"
         and n = 5 and c = None and u = 7 and k = 10]
    tools_turn_failures_into_error_strings
      [where env = "stub_env\<lparr>get_chats_by_usuario := (\<lambda>u. Inl failing)\<rparr>"
         and t = PromotionSearchTool and w = empty_world and e = failing and q = "lit ''dobok''"
         and n = 5 and c = None and u = 7 and k = 10]
  by (simp add: stub_env_def failing_def lit_def)

text \<open>
  C7, as stated, fails: not every exception raised in the pipeline leads to the apology.
  When \<open>search_similar\<close> raises inside the product search, the tool catches the exception
  and returns its error string, the knowledge agent returns that string, the pipeline goes
  on, and \<open>handle_user_message\<close> returns the response of the LLM.
\<close>

theorem tool_failure_is_not_answered_with_apology:
  "search_similar (stub_env\<lparr>search_similar := (\<lambda>v n f. Inl failing)\<rparr>) (replicate 384 1) 5 []
     = Inl failing
   \<and> search_calls (trace (snd (handle_user_message ascii_lower
          (stub_env\<lparr>search_similar := (\<lambda>v n f. Inl failing)\<rparr>)
          \<lparr>analytics_agent = \<lparr>conversation_metrics = 2\<rparr>\<rparr> (lit ''Hay stock?'')
          (snd (MainBaekhoAgent_init empty_world)))))
     = [(replicate 384 1, 5, [])]
   \<and> fst (KnowledgeAgent_handle_message_fallback ascii_lower
          (stub_env\<lparr>search_similar := (\<lambda>v n f. Inl failing)\<rparr>) (lit ''Hay stock?'')
          (snd (MainBaekhoAgent_init empty_world)))
     = Inr (product_error_prefix @ lit ''timeout'')
   \<and> fst (handle_user_message ascii_lower
          (stub_env\<lparr>search_similar := (\<lambda>v n f. Inl failing)\<rparr>)
          \<lparr>analytics_agent = \<lparr>conversation_metrics = 2\<rparr>\<rparr> (lit ''Hay stock?'')
          (snd (MainBaekhoAgent_init empty_world)))
     = Inr (lit ''Hola'')
   \<and> lit ''Hola'' \<noteq> apology"
  by (simp add: MainBaekhoAgent_init_def store_defs py_defs pipeline_defs apology_def)

text \<open>
  C7, amended, for exceptions that are instances of \<open>Exception\<close>. \<open>handle_user_message\<close>
  returns the apology string when an exception escapes a step of its \<open>try\<close> body, as one
  raised by \<open>track_conversation\<close> does, and returns the value of the body when the body
  completes. The knowledge and sales agents always return a string, so no exception raised
  inside a tool escapes them. On counters of the shape \<open>__init__\<close> builds the result is the
  response of the LLM to the prompt made of the message and of the answers of the two
  agents, and the apology when the LLM raises.
\<close>

theorem handle_user_message_apology_when_body_raises:
  "(\<forall>e. fst (handle_user_message_body lower env self message w) = Inl e
        \<longrightarrow> fst (handle_user_message lower env self message w) = Inr apology)
   \<and> (\<forall>final. fst (handle_user_message_body lower env self message w) = Inr final
          \<longrightarrow> fst (handle_user_message lower env self message w) = Inr final)
   \<and> (\<forall>e. fst (track_conversation lower (analytics_agent self) message [] w) = Inl e
          \<longrightarrow> fst (handle_user_message lower env self message w) = Inr apology)
   \<and> (\<exists>kr. fst (KnowledgeAgent_handle_message_fallback lower env message w) = Inr kr)
   \<and> (\<exists>sr. fst (SalesAgent_handle_message_fallback lower message w) = Inr sr)
   \<and> (metrics_ok w (analytics_agent self)
        \<longrightarrow> fst (KnowledgeAgent_handle_message_fallback lower env message w) = Inr kr
        \<longrightarrow> fst (SalesAgent_handle_message_fallback lower message w) = Inr sr
        \<longrightarrow> fst (handle_user_message lower env self message w)
              = (case llm_response_async env (context_prompt message kr sr) of
                   Inl e \<Rightarrow> Inr apology
                 | Inr final \<Rightarrow> Inr final))"
proof -
  have b: "fst (handle_user_message lower env self message w) = Inr apology"
    if "fst (handle_user_message_body lower env self message w) = Inl e" for e
    unfolding handle_user_message_def using that by (rule py_try_Inl)
  have c: "fst (handle_user_message lower env self message w) = Inr final"
    if "fst (handle_user_message_body lower env self message w) = Inr final" for final
    unfolding handle_user_message_def using that by (simp add: py_try_Inr)
  have t: "fst (handle_user_message lower env self message w) = Inr apology"
    if "fst (track_conversation lower (analytics_agent self) message [] w) = Inl e" for e
  proof -
    have "fst (handle_user_message_body lower env self message w) = Inl e"
      using that
      by (cases "track_conversation lower (analytics_agent self) message [] w")
        (simp add: handle_user_message_body_def py_bind_def)
    then show ?thesis by (rule b)
  qed
  have d: "fst (handle_user_message lower env self message w)
              = (case llm_response_async env (context_prompt message kr sr) of
                   Inl e \<Rightarrow> Inr apology
                 | Inr final \<Rightarrow> Inr final)"
    if ok: "metrics_ok w (analytics_agent self)"
      and kr: "fst (KnowledgeAgent_handle_message_fallback lower env message w) = Inr kr"
      and sr: "fst (SalesAgent_handle_message_fallback lower message w) = Inr sr"
  proof -
    obtain m where m: "metrics_of w (analytics_agent self) = Some m"
      using metrics_ok_metrics_of[OF ok] by blast
    show ?thesis
      using body_run[OF ok m kr sr] b c
      by (cases "llm_response_async env (context_prompt message kr sr)") simp_all
  qed
  from b c t d knowledge_returns[of lower env message w] sales_returns[of lower message w]
  show ?thesis by blast
qed

theorem handle_user_message_apology_when_body_raises_witness:
  "fst (handle_user_message ascii_lower stub_env
          \<lparr>analytics_agent = \<lparr>conversation_metrics = 2\<rparr>\<rparr> (lit ''Hay stock?'')
          (snd (MainBaekhoAgent_init empty_world))) = Inr (lit ''Hola'')
   \<and> fst (handle_user_message ascii_lower (stub_env\<lparr>llm_response_async := (\<lambda>p. Inl failing)\<rparr>)
          \<lparr>analytics_agent = \<lparr>conversation_metrics = 2\<rparr>\<rparr> (lit ''Hay stock?'')
          (snd (MainBaekhoAgent_init empty_world))) = Inr apology
   \<and> fst (track_conversation ascii_lower \<lparr>conversation_metrics = 2\<rparr> (lit ''Hay stock?'') []
          empty_world)
       = Inl (PyExn ''TypeError'' (lit ''list indices must be integers or slices, not str''))
   \<and> fst (handle_user_message ascii_lower stub_env
          \<lparr>analytics_agent = \<lparr>conversation_metrics = 2\<rparr>\<rparr> (lit ''Hay stock?'')
          empty_world) = Inr apology"
proof -
  let ?self = "\<lparr>analytics_agent = \<lparr>conversation_metrics = 2\<rparr>\<rparr>"
  let ?w = "snd (MainBaekhoAgent_init empty_world)"
  let ?bad = "stub_env\<lparr>llm_response_async := (\<lambda>p. Inl failing)\<rparr>"
  have b1: "fst (handle_user_message_body ascii_lower stub_env ?self (lit ''Hay stock?'') ?w)
              = Inr (lit ''Hola'')"
    by (simp add: MainBaekhoAgent_init_def store_defs py_defs pipeline_defs)
  have b2: "fst (handle_user_message_body ascii_lower ?bad ?self (lit ''Hay stock?'') ?w)
              = Inl failing"
    by (simp add: MainBaekhoAgent_init_def store_defs py_defs pipeline_defs)
  have b3: "fst (track_conversation ascii_lower (analytics_agent ?self) (lit ''Hay stock?'') []
              empty_world)
              = Inl (PyExn ''TypeError'' (lit ''list indices must be integers or slices, not str''))"
    by (simp add: store_defs py_defs pipeline_defs)
  show ?thesis
    using handle_user_message_apology_when_body_raises
            [of ascii_lower stub_env ?self "lit ''Hay stock?''" ?w] b1
      handle_user_message_apology_when_body_raises
            [of ascii_lower ?bad ?self "lit ''Hay stock?''" ?w] b2
      handle_user_message_apology_when_body_raises
            [of ascii_lower stub_env ?self "lit ''Hay stock?''" empty_world] b3
    by (simp del: One_nat_def)
qed

text \<open>
  C8. \<open>PromotionSearchTool.handle\<close> calls \<open>search_similar\<close> once, with 384 zeros, the limit
  10 and the filters \<open>type = promocion\<close>, \<open>activa = True\<close>, whenever the vector service
  could be constructed, and makes no call of it otherwise; on an empty result it returns
  the message that there are no promotions.
\<close>

theorem promotion_search_query_is_fixed:
  "(new_QdrantService env = Inr ()
      \<longrightarrow> search_calls (trace (snd (handle env PromotionSearchTool w)))
            = search_calls (trace w)
                @ [(replicate 384 0, 10,
                    [(''type'', FStr (lit ''promocion'')), (''activa'', FBool True)])])
   \<and> (\<forall>e. new_QdrantService env = Inl e
          \<longrightarrow> search_calls (trace (snd (handle env PromotionSearchTool w))) = search_calls (trace w))
   \<and> length (replicate 384 (0::real)) = 384
   \<and> (new_QdrantService env = Inr ()
        \<longrightarrow> search_similar env (replicate 384 0) 10
              [(''type'', FStr (lit ''promocion'')), (''activa'', FBool True)] = Inr []
        \<longrightarrow> fst (handle env PromotionSearchTool w)
              = Inr (lit ''No hay promociones activas en este momento.''))"
  by (simp add: py_defs Let_def search_calls_append promotion_filters_def no_promotions_def
      split: sum.splits)

theorem promotion_search_query_is_fixed_witness:
  "search_calls (trace (snd (handle stub_env PromotionSearchTool empty_world)))
     = [(replicate 384 0, 10, [(''type'', FStr (lit ''promocion'')), (''activa'', FBool True)])]
   \<and> fst (handle stub_env PromotionSearchTool empty_world)
     = Inr (lit ''No hay promociones activas en este momento.'')"
  using promotion_search_query_is_fixed[of stub_env empty_world]
  by (simp add: stub_env_def empty_world_def)

text \<open>
  C9. In any world, two calls of \<open>track_conversation\<close> that differ only in
  \<open>bot_response\<close> return the same outcome and leave the same store, hence the same
  counters.
\<close>

theorem track_conversation_ignores_bot_response:
  "fst (track_conversation lower self user_msg b1 w)
     = fst (track_conversation lower self user_msg b2 w)
   \<and> cells (snd (track_conversation lower self user_msg b1 w))
     = cells (snd (track_conversation lower self user_msg b2 w))
   \<and> next_free (snd (track_conversation lower self user_msg b1 w))
     = next_free (snd (track_conversation lower self user_msg b2 w))
   \<and> metrics_of (snd (track_conversation lower self user_msg b1 w)) self
     = metrics_of (snd (track_conversation lower self user_msg b2 w)) self"
  using track_ignores_response[of lower self user_msg b1 w b2]
    metrics_of_cells[of "snd (track_conversation lower self user_msg b1 w)"
      "snd (track_conversation lower self user_msg b2 w)" self]
  by simp

theorem track_conversation_ignores_bot_response_witness:
  "metrics_of
     (snd (track_conversation ascii_lower \<lparr>conversation_metrics = 2\<rparr> (lit ''Hay stock?'') []
            (snd (AnalyticsAgent_init empty_world))))
     \<lparr>conversation_metrics = 2\<rparr>
   = metrics_of
     (snd (track_conversation ascii_lower \<lparr>conversation_metrics = 2\<rparr> (lit ''Hay stock?'')
            (lit ''Gracias por comprar'') (snd (AnalyticsAgent_init empty_world))))
     \<lparr>conversation_metrics = 2\<rparr>"
  using track_conversation_ignores_bot_response[of ascii_lower "\<lparr>conversation_metrics = 2\<rparr>"
      "lit ''Hay stock?''" "[]" "snd (AnalyticsAgent_init empty_world)" "lit ''Gracias por comprar''"]
  by simp

text \<open>
  C10. A new agent has \<open>total_messages = 0\<close> and two empty lists. After any sequence of
  \<open>track_conversation\<close> calls on it, none of which raises, \<open>total_messages\<close> is at least
  the length of \<open>user_satisfaction\<close> and of \<open>conversion_indicators\<close>, and every element of
  \<open>conversion_indicators\<close> has at most 50 characters.
\<close>

theorem counters_invariant_from_fresh_agent:
  assumes "AnalyticsAgent_init w0 = (Inr self, w1)"
  shows "metrics_of w1 self
           = Some \<lparr>m_total_messages = 0, m_user_satisfaction = [], m_conversion_indicators = []\<rparr>
         \<and> (\<exists>m. fst (track_all lower self calls w1) = Inr ()
                \<and> metrics_of (snd (track_all lower self calls w1)) self = Some m
                \<and> int (length (m_user_satisfaction m)) \<le> m_total_messages m
                \<and> int (length (m_conversion_indicators m)) \<le> m_total_messages m
                \<and> (\<forall>s \<in> set (m_conversion_indicators m). length s \<le> 50))"
proof -
  let ?m0 = "\<lparr>m_total_messages = 0, m_user_satisfaction = [], m_conversion_indicators = []\<rparr>"
  from assms have self: "self = \<lparr>conversation_metrics = next_free w0 + 2\<rparr>"
    and w1: "w1 = snd (AnalyticsAgent_init w0)"
    using init_effect(1)[of w0] by simp_all
  have ok: "metrics_ok w1 self" and m0: "metrics_of w1 self = Some ?m0"
    using init_effect(2,3)[of w0] by (simp_all add: self w1)
  have "counters_inv ?m0" by (simp add: counters_inv_def)
  from track_all_effect[OF ok m0 this, of lower calls] m0 show ?thesis
    by (auto simp: counters_inv_def list_all_iff)
qed

theorem counters_invariant_from_fresh_agent_witness:
  "AnalyticsAgent_init empty_world
     = (Inr \<lparr>conversation_metrics = 2\<rparr>,
        \<lparr>cells = (\<lambda>a. ListObj [])
           (0 := ListObj [], 1 := ListObj [],
            2 := DictObj [''total_messages'' \<mapsto> IntV 0, ''user_satisfaction'' \<mapsto> Ref 0,
                          ''conversion_indicators'' \<mapsto> Ref 1]),
         next_free = 3, trace = []\<rparr>)
   \<and> metrics_of
        (snd (track_all ascii_lower \<lparr>conversation_metrics = 2\<rparr>
               [(lit ''Hay STOCK?'', []), (lit ''perfecto, gracias'', lit ''De nada'')]
               (snd (AnalyticsAgent_init empty_world))))
        \<lparr>conversation_metrics = 2\<rparr>
       = Some \<lparr>m_total_messages = 2, m_user_satisfaction = [lit ''positive''],
               m_conversion_indicators = [lit ''Hay STOCK?'']\<rparr>"
proof -
  have i: "AnalyticsAgent_init empty_world
     = (Inr \<lparr>conversation_metrics = 2\<rparr>,
        \<lparr>cells = (\<lambda>a. ListObj [])
           (0 := ListObj [], 1 := ListObj [],
            2 := DictObj [''total_messages'' \<mapsto> IntV 0, ''user_satisfaction'' \<mapsto> Ref 0,
                          ''conversion_indicators'' \<mapsto> Ref 1]),
         next_free = 3, trace = []\<rparr>)"
    by (simp add: AnalyticsAgent_init_def allocate_def py_defs empty_world_def numeral_eq_Suc)
  have "metrics_of
        (snd (track_all ascii_lower \<lparr>conversation_metrics = 2\<rparr>
               [(lit ''Hay STOCK?'', []), (lit ''perfecto, gracias'', lit ''De nada'')]
               (snd (AnalyticsAgent_init empty_world))))
        \<lparr>conversation_metrics = 2\<rparr>
       = Some \<lparr>m_total_messages = 2, m_user_satisfaction = [lit ''positive''],
               m_conversion_indicators = [lit ''Hay STOCK?'']\<rparr>"
    by (simp add: store_defs py_defs empty_world_def ascii_lower_def lit_def)
  then show ?thesis
    using i counters_invariant_from_fresh_agent[OF i, of ascii_lower
        "[(lit ''Hay STOCK?'', []), (lit ''perfecto, gracias'', lit ''De nada'')]"]
    by simp
qed

end
